theory Spec2Isabelle
  imports Main "HOL-Library.AList"
begin

section \<open>The f-image Go client: errors, transport and resource services\<close>

text \<open>
  The client library is a thin layer over Go's standard library. The embedding keeps the
  code of the repository (the client, the error predicates and the Files, Share and Trash
  services) as HOL functions and takes what the code calls in the standard library
  (\<open>encoding/json\<close>, \<open>net/http\<close>, \<open>net/url\<close>, the random multipart boundary) as the fields
  of a record \<open>golib\<close>, so that every theorem holds for each behaviour of these functions.
  The network is the field \<open>HTTPClient\<close> of the client: a function from the request that is
  sent to either a transport error or a response. The list \<open>sent\<close> that every transport
  function takes and returns is the sequence of requests handed to \<open>HTTPClient.Do\<close> so far; a
  function makes no network call exactly when it returns that list unchanged.
  A \<open>context.Context\<close> is not modelled: a cancellation or a deadline is one of the errors
  that \<open>HTTPClient\<close> may return.
\<close>

subsection \<open>Errors and their predicates (\<open>APIError\<close>, \<open>IsNotFound\<close>, ...)\<close>

type_synonym bytes = string

text \<open>Go's \<open>int\<close> and \<open>int64\<close> are only compared, stored and printed here, never added or
  multiplied, so they are modelled as \<open>int\<close>.\<close>

record APIError =
  StatusCode :: int
  Message :: string

datatype sentinel =
    ErrUnauthorized | ErrNotFound | ErrBadRequest | ErrForbidden
  | ErrQuotaExceeded | ErrFileTooLarge | ErrInvalidFormat

text \<open>
  The error values that can reach a caller: one of the package's sentinel variables, a fresh
  value made by \<open>fmt.Errorf\<close> without \<open>%w\<close>, a value made by \<open>fmt.Errorf("<prefix>: %w", err)\<close>
  that wraps \<open>err\<close>, a pointer to an \<open>APIError\<close>, and an error value of the standard library
  (known by its text only; it wraps no error of this package).
\<close>

datatype error =
    Sentinel sentinel
  | Errorf string
  | Errorf_w string error
  | APIErr APIError
  | Lib string

text \<open>\<open>errors.As(err, &apiErr)\<close> with \<open>apiErr\<close> of type \<open>*APIError\<close>, and \<open>errors.Is\<close> with a
  sentinel as target: both walk the chain of wrapped errors.\<close>

fun errors_As_APIError :: "error \<Rightarrow> APIError option" where
  "errors_As_APIError (APIErr e) = Some e"
| "errors_As_APIError (Errorf_w prefix err) = errors_As_APIError err"
| "errors_As_APIError (Sentinel s) = None"
| "errors_As_APIError (Errorf msg) = None"
| "errors_As_APIError (Lib msg) = None"

fun errors_Is :: "error \<Rightarrow> sentinel \<Rightarrow> bool" where
  "errors_Is (Sentinel s) target = (s = target)"
| "errors_Is (Errorf_w prefix err) target = errors_Is err target"
| "errors_Is (Errorf msg) target = False"
| "errors_Is (APIErr e) target = False"
| "errors_Is (Lib msg) target = False"

text \<open>The predicates take a Go \<open>error\<close>, which may be \<open>nil\<close> (\<open>None\<close>).\<close>

definition IsNotFound :: "error option \<Rightarrow> bool" where
  "IsNotFound err =
     (case err of
        None \<Rightarrow> False
      | Some e \<Rightarrow>
          (case errors_As_APIError e of
             Some apiErr \<Rightarrow> StatusCode apiErr = 404
           | None \<Rightarrow> errors_Is e ErrNotFound))"

definition IsUnauthorized :: "error option \<Rightarrow> bool" where
  "IsUnauthorized err =
     (case err of
        None \<Rightarrow> False
      | Some e \<Rightarrow>
          (case errors_As_APIError e of
             Some apiErr \<Rightarrow> StatusCode apiErr = 401
           | None \<Rightarrow> errors_Is e ErrUnauthorized))"

definition IsForbidden :: "error option \<Rightarrow> bool" where
  "IsForbidden err =
     (case err of
        None \<Rightarrow> False
      | Some e \<Rightarrow>
          (case errors_As_APIError e of
             Some apiErr \<Rightarrow> StatusCode apiErr = 403
           | None \<Rightarrow> errors_Is e ErrForbidden))"

definition IsBadRequest :: "error option \<Rightarrow> bool" where
  "IsBadRequest err =
     (case err of
        None \<Rightarrow> False
      | Some e \<Rightarrow>
          (case errors_As_APIError e of
             Some apiErr \<Rightarrow> StatusCode apiErr = 400
           | None \<Rightarrow> errors_Is e ErrBadRequest))"

definition IsQuotaExceeded :: "error option \<Rightarrow> bool" where
  "IsQuotaExceeded err =
     (case err of
        None \<Rightarrow> False
      | Some e \<Rightarrow>
          (case errors_As_APIError e of
             Some apiErr \<Rightarrow> StatusCode apiErr = 402 \<or> StatusCode apiErr = 413
           | None \<Rightarrow> errors_Is e ErrQuotaExceeded))"

subsection \<open>The standard library and the network\<close>

text \<open>
  A multipart body is kept as the sequence of parts written to the \<open>multipart.Writer\<close>
  (a file part with its field name, file name and content, or a text field with its name
  and value) together with the boundary, not as the bytes of its encoding.
\<close>

datatype part = FormFile string string bytes | FormField string string

datatype payload = JSONBytes bytes | MultipartForm string "part list"

record http_request =
  req_Method :: string
  req_URL :: string
  req_Header :: "(string \<times> string) list"
  req_Body :: "payload option"

text \<open>The body of a response is what \<open>io.ReadAll(resp.Body)\<close> gives: a read error or the
  bytes.\<close>

record http_response =
  resp_StatusCode :: int
  resp_Body :: "string + bytes"

record Client =
  BaseURL :: string
  HTTPClient :: "http_request \<Rightarrow> string + http_response"
  apiToken :: string
  userAgent :: string

text \<open>The anonymous struct that \<open>parseAPIError\<close> decodes into.\<close>

record errResp =
  errResp_Error :: string
  errResp_Message :: string

text \<open>
  The standard library at a request-body type \<open>'b\<close> and a destination type \<open>'r\<close>:
  \<^item> \<open>json_Marshal\<close>: \<open>json.Marshal\<close>, an error text or the encoding;
  \<^item> \<open>json_Unmarshal data v\<close>: \<open>json.Unmarshal(data, &v)\<close>, the error if any and the
    destination afterwards;
  \<^item> \<open>json_Unmarshal_errResp\<close>: \<open>json.Unmarshal\<close> into a zero \<open>errResp\<close>;
  \<^item> \<open>http_StatusText\<close>: \<open>http.StatusText\<close>;
  \<^item> \<open>http_NewRequest_err method url\<close>: the error of \<open>http.NewRequestWithContext\<close>, if any;
  \<^item> \<open>url_Values_Encode\<close>: \<open>url.Values.Encode\<close>;
  \<^item> \<open>multipart_boundary\<close>: the boundary that \<open>multipart.NewWriter\<close> draws at random;
  \<^item> \<open>zero_value\<close>: the zero value of the destination type (\<open>var resp T\<close>).
\<close>

record ('b, 'r) golib =
  json_Marshal :: "'b \<Rightarrow> string + bytes"
  json_Unmarshal :: "bytes \<Rightarrow> 'r \<Rightarrow> string option \<times> 'r"
  json_Unmarshal_errResp :: "bytes \<Rightarrow> string + errResp"
  http_StatusText :: "int \<Rightarrow> string"
  http_NewRequest_err :: "string \<Rightarrow> string \<Rightarrow> string option"
  url_Values_Encode :: "(string \<times> string list) list \<Rightarrow> string"
  multipart_boundary :: string
  zero_value :: 'r

text \<open>\<open>http.Header.Set\<close>: the keys used by the client are in canonical form already. A Go
  map is kept as the list of its entries, keys distinct.\<close>

definition Header_Set :: "string \<Rightarrow> string \<Rightarrow> (string \<times> string) list \<Rightarrow> (string \<times> string) list" where
  "Header_Set key v h = AList.update key v h"

subsection \<open>The client: \<open>parseAPIError\<close>, \<open>request\<close>, \<open>requestWithQuery\<close>, \<open>uploadMultipart\<close>\<close>

definition parseAPIError :: "('b, 'r) golib \<Rightarrow> int \<Rightarrow> bytes \<Rightarrow> error" where
  "parseAPIError lib statusCode body =
     (case json_Unmarshal_errResp lib body of
        Inl err \<Rightarrow> APIErr \<lparr>StatusCode = statusCode, Message = body\<rparr>
      | Inr errResp \<Rightarrow>
          (let msg = errResp_Error errResp;
               msg = (if msg = [] then errResp_Message errResp else msg);
               msg = (if msg = [] then http_StatusText lib statusCode else msg)
           in APIErr \<lparr>StatusCode = statusCode, Message = msg\<rparr>))"

text \<open>The block \<open>// Set headers\<close> of \<open>request\<close>; \<open>hasBody\<close> is \<open>body != nil\<close>.\<close>

definition request_Header :: "Client \<Rightarrow> bool \<Rightarrow> (string \<times> string) list" where
  "request_Header c hasBody =
     (let h = Header_Set ''Authorization'' (''Bearer '' @ apiToken c) [];
          h = Header_Set ''User-Agent'' (userAgent c) h;
          h = (if hasBody then Header_Set ''Content-Type'' ''application/json'' h else h);
          h = Header_Set ''Accept'' ''application/json'' h
      in h)"

text \<open>
  \<open>request\<close> returns the error (\<open>None\<close> for \<open>nil\<close>) and the content of the destination
  \<open>result\<close> afterwards (\<open>None\<close> for a \<open>nil\<close> destination), with the requests sent.
\<close>

definition request ::
  "('b, 'r) golib \<Rightarrow> Client \<Rightarrow> string \<Rightarrow> string \<Rightarrow> 'b option \<Rightarrow> 'r option \<Rightarrow>
   http_request list \<Rightarrow> (error option \<times> 'r option) \<times> http_request list" where
  "request lib c method path body result sent =
     (let reqURL = BaseURL c @ path in
      case (case body of
              None \<Rightarrow> Inr None
            | Some b \<Rightarrow>
                (case json_Marshal lib b of
                   Inl err \<Rightarrow> Inl err
                 | Inr jsonBody \<Rightarrow> Inr (Some (JSONBytes jsonBody)))) of
        Inl err \<Rightarrow>
          ((Some (Errorf_w ''failed to marshal request body'' (Lib err)), result), sent)
      | Inr bodyReader \<Rightarrow>
          (case http_NewRequest_err lib method reqURL of
             Some err \<Rightarrow>
               ((Some (Errorf_w ''failed to create request'' (Lib err)), result), sent)
           | None \<Rightarrow>
               (let req = \<lparr>req_Method = method, req_URL = reqURL,
                           req_Header = request_Header c (body \<noteq> None),
                           req_Body = bodyReader\<rparr>
                in case HTTPClient c req of
                     Inl err \<Rightarrow>
                       ((Some (Errorf_w ''request failed'' (Lib err)), result), sent @ [req])
                   | Inr resp \<Rightarrow>
                       (case resp_Body resp of
                          Inl err \<Rightarrow>
                            ((Some (Errorf_w ''failed to read response body'' (Lib err)),
                              result), sent @ [req])
                        | Inr respBody \<Rightarrow>
                            if resp_StatusCode resp < 200 \<or> resp_StatusCode resp \<ge> 300
                            then ((Some (parseAPIError lib (resp_StatusCode resp) respBody),
                                   result), sent @ [req])
                            else
                              (case result of
                                 None \<Rightarrow> ((None, None), sent @ [req])
                               | Some v \<Rightarrow>
                                   if length respBody > 0
                                   then (case json_Unmarshal lib respBody v of
                                           (Some err, v') \<Rightarrow>
                                             ((Some (Errorf_w ''failed to decode response''
                                                       (Lib err)), Some v'), sent @ [req])
                                         | (None, v') \<Rightarrow> ((None, Some v'), sent @ [req]))
                                   else ((None, Some v), sent @ [req]))))))"

text \<open>\<open>url.Values\<close> is a map from keys to lists of values; \<open>len(query)\<close> is the number of its
  keys.\<close>

definition requestWithQuery ::
  "('b, 'r) golib \<Rightarrow> Client \<Rightarrow> string \<Rightarrow> (string \<times> string list) list \<Rightarrow> 'r option \<Rightarrow>
   http_request list \<Rightarrow> (error option \<times> 'r option) \<times> http_request list" where
  "requestWithQuery lib c path query result sent =
     (let path = (if length query > 0 then path @ ''?'' @ url_Values_Encode lib query
                  else path)
      in request lib c ''GET'' path None result sent)"

text \<open>
  An \<open>io.Reader\<close> is the sequence of what its \<open>Read\<close> calls deliver: chunks of bytes, ended
  by \<open>io.EOF\<close> or by an error. \<open>io.Copy\<close> reads it chunk by chunk, in order, until the end,
  and appends each chunk to what it has written.
\<close>

datatype reader = EOF | ReadErr string | Data bytes reader

fun io_Copy :: "bytes \<Rightarrow> reader \<Rightarrow> bytes \<times> string option" where
  "io_Copy dst EOF = (dst, None)"
| "io_Copy dst (ReadErr err) = (dst, Some err)"
| "io_Copy dst (Data chunk src) = io_Copy (dst @ chunk) src"

text \<open>\<open>Writer.WriteField\<close> adds a text part after the parts written so far.
  \<open>Writer.FormDataContentType\<close> quotes the boundary when it holds one of the characters
  \<open>()<>@,;:\"/[]?=\<close> or a space (a boundary drawn by \<open>NewWriter\<close> never does).\<close>

definition WriteField :: "string \<Rightarrow> string \<Rightarrow> part list \<Rightarrow> part list" where
  "WriteField key v w = w @ [FormField key v]"

definition tspecials :: string where
  "tspecials = ''()<>@,;:'' @ [CHR 0x5C, CHR 0x22] @ ''/[]?= ''"

definition FormDataContentType :: "string \<Rightarrow> string" where
  "FormDataContentType b =
     ''multipart/form-data; boundary='' @
     (if list_ex (\<lambda>ch. ch \<in> set tspecials) b then [CHR 0x22] @ b @ [CHR 0x22] else b)"

text \<open>The block \<open>// Set headers\<close> of \<open>uploadMultipart\<close>; \<open>boundary\<close> is the boundary of
  the writer.\<close>

definition upload_Header :: "Client \<Rightarrow> string \<Rightarrow> (string \<times> string) list" where
  "upload_Header c boundary =
     (let h = Header_Set ''Authorization'' (''Bearer '' @ apiToken c) [];
          h = Header_Set ''User-Agent'' (userAgent c) h;
          h = Header_Set ''Content-Type'' (FormDataContentType boundary) h;
          h = Header_Set ''Accept'' ''application/json'' h
      in h)"

text \<open>
  \<open>uploadMultipart\<close> writes into a \<open>bytes.Buffer\<close>, whose writes do not fail, so
  \<open>CreateFormFile\<close>, \<open>WriteField\<close> and \<open>Close\<close> return no error; the copy from the reader
  may. \<open>formFields\<close> is the Go map \<open>fields\<close> as the list of its entries, in the order in which \<open>range\<close>
  visits them.
\<close>

definition uploadMultipart ::
  "('b, 'r) golib \<Rightarrow> Client \<Rightarrow> string \<Rightarrow> reader \<Rightarrow> string \<Rightarrow> (string \<times> string) list \<Rightarrow>
   http_request list \<Rightarrow> (error + bytes) \<times> http_request list" where
  "uploadMultipart lib c path reader filename formFields sent =
     (case io_Copy [] reader of
        (content, Some err) \<Rightarrow>
          (Inl (Errorf_w ''failed to copy file data'' (Lib err)), sent)
      | (content, None) \<Rightarrow>
          (let writer = [FormFile ''file'' filename content];
               writer = foldl (\<lambda>w (key, v). WriteField key v w) writer formFields;
               reqURL = BaseURL c @ path
           in case http_NewRequest_err lib ''POST'' reqURL of
                Some err \<Rightarrow>
                  (Inl (Errorf_w ''failed to create request'' (Lib err)), sent)
              | None \<Rightarrow>
                  (let req = \<lparr>req_Method = ''POST'', req_URL = reqURL,
                              req_Header = upload_Header c (multipart_boundary lib),
                              req_Body = Some (MultipartForm (multipart_boundary lib) writer)\<rparr>
                   in case HTTPClient c req of
                        Inl err \<Rightarrow>
                          (Inl (Errorf_w ''request failed'' (Lib err)), sent @ [req])
                      | Inr resp \<Rightarrow>
                          (case resp_Body resp of
                             Inl err \<Rightarrow>
                               (Inl (Errorf_w ''failed to read response body'' (Lib err)),
                                sent @ [req])
                           | Inr respBody \<Rightarrow>
                               if resp_StatusCode resp < 200 \<or> resp_StatusCode resp \<ge> 300
                               then (Inl (parseAPIError lib (resp_StatusCode resp) respBody),
                                     sent @ [req])
                               else (Inr respBody, sent @ [req])))))"

subsection \<open>Formatting integers (\<open>%d\<close>, \<open>strconv.FormatInt(_, 10)\<close>)\<close>





subsection \<open>The Files service\<close>

record UploadOptions =
  upload_Filename :: string
  upload_Description :: string
  upload_AlbumID :: "int option"

text \<open>A service method returns \<open>(nil, err)\<close> or \<open>(&resp, nil)\<close>: an error or the decoded
  value.\<close>

definition Files_Upload ::
  "('b, 'r) golib \<Rightarrow> Client \<Rightarrow> reader \<Rightarrow> UploadOptions option \<Rightarrow>
   http_request list \<Rightarrow> (error + 'r) \<times> http_request list" where
  "Files_Upload lib c reader opts sent =
     (let opts = (case opts of
                    None \<Rightarrow> \<lparr>upload_Filename = [], upload_Description = [],
                             upload_AlbumID = None\<rparr>
                  | Some given \<Rightarrow> given);
          filename = upload_Filename opts;
          filename = (if filename = [] then ''image.jpg'' else filename);
          formFields = [];
          formFields = (if upload_Description opts \<noteq> []
                        then AList.update ''description'' (upload_Description opts) formFields
                        else formFields)
      in case uploadMultipart lib c ''/api/files/upload'' reader filename formFields sent of
           (Inl err, sent') \<Rightarrow> (Inl err, sent')
         | (Inr respBody, sent') \<Rightarrow>
             (case json_Unmarshal lib respBody (zero_value lib) of
                (Some err, resp) \<Rightarrow>
                  (Inl (Errorf_w ''failed to decode response'' (Lib err)), sent')
              | (None, resp) \<Rightarrow> (Inr resp, sent')))"

text \<open>What every method built on \<open>request\<close> does with its outcome:
  \<open>if err := s.client.request(..., &resp); err != nil { return nil, err }; return &resp, nil\<close>.\<close>

definition returning ::
  "(error option \<times> 'r option) \<times> http_request list \<Rightarrow> 'r \<Rightarrow> (error + 'r) \<times> http_request list" where
  "returning outcome dflt =
     (case outcome of
        ((Some err, resp), sent') \<Rightarrow> (Inl err, sent')
      | ((None, Some resp), sent') \<Rightarrow> (Inr resp, sent')
      | ((None, None), sent') \<Rightarrow> (Inr dflt, sent'))"







subsection \<open>The Trash service\<close>




subsection \<open>The Share service\<close>

record CreateShareOptions =
  share_FileID :: "int option"
  share_AlbumID :: "int option"
  share_Password :: string
  share_ExpiresIn :: int
  share_MaxViews :: int

record createShareReq =
  body_FileID :: "int option"
  body_AlbumID :: "int option"
  body_Password :: string
  body_ExpiresIn :: int
  body_MaxViews :: int

definition Share_Create ::
  "(createShareReq, 'r) golib \<Rightarrow> Client \<Rightarrow> CreateShareOptions option \<Rightarrow> http_request list \<Rightarrow>
   (error + 'r) \<times> http_request list" where
  "Share_Create lib c opts sent =
     (case opts of
        None \<Rightarrow> (Inl (Errorf ''either FileID or AlbumID is required''), sent)
      | Some opts \<Rightarrow>
          if share_FileID opts = None \<and> share_AlbumID opts = None
          then (Inl (Errorf ''either FileID or AlbumID is required''), sent)
          else
            (let req = \<lparr>body_FileID = share_FileID opts, body_AlbumID = share_AlbumID opts,
                        body_Password = share_Password opts,
                        body_ExpiresIn = share_ExpiresIn opts,
                        body_MaxViews = share_MaxViews opts\<rparr>
             in returning
                  (request lib c ''POST'' ''/api/shares'' (Some req) (Some (zero_value lib)) sent)
                  (zero_value lib)))"

subsection \<open>Observations on outcomes\<close>

text \<open>The error of a service method's outcome, as a Go \<open>error\<close> (\<open>None\<close> for \<open>nil\<close>).\<close>

definition err_of :: "error + 'a \<Rightarrow> error option" where
  "err_of outcome = (case outcome of Inl err \<Rightarrow> Some err | Inr v \<Rightarrow> None)"

text \<open>\<open>classified err status\<close>: \<open>err\<close> is an \<open>*APIError\<close> with that status code, and the five
  predicates answer by the status code.\<close>

definition classified :: "error option \<Rightarrow> int \<Rightarrow> bool" where
  "classified err status =
     ((case err of Some (APIErr e) \<Rightarrow> StatusCode e = status | _ \<Rightarrow> False) \<and>
      IsUnauthorized err = (status = 401) \<and>
      IsForbidden err = (status = 403) \<and>
      IsNotFound err = (status = 404) \<and>
      IsBadRequest err = (status = 400) \<and>
      IsQuotaExceeded err = (status = 402 \<or> status = 413))"

text \<open>\<open>sends_one sent sent' method url body\<close>: exactly one request was sent on the way from
  \<open>sent\<close> to \<open>sent'\<close>, with that method, URL and body.\<close>

definition sends_one ::
  "http_request list \<Rightarrow> http_request list \<Rightarrow> string \<Rightarrow> string \<Rightarrow> payload option \<Rightarrow> bool" where
  "sends_one sent sent' method url body =
     (take (length sent) sent' = sent \<and>
      (case drop (length sent) sent' of
         [req] \<Rightarrow> req_Method req = method \<and> req_URL req = url \<and> req_Body req = body
       | _ \<Rightarrow> False))"

text \<open>Whether a request carries a JSON body, and whether a part is a file part.\<close>

definition has_JSON_body :: "http_request \<Rightarrow> bool" where
  "has_JSON_body req = (case req_Body req of Some (JSONBytes jsonBody) \<Rightarrow> True | _ \<Rightarrow> False)"

fun is_FormFile :: "part \<Rightarrow> bool" where
  "is_FormFile (FormFile fieldname filename content) = True"
| "is_FormFile (FormField key v) = False"

text \<open>All the bytes that a reader delivers, in order, and the error that ends it, if any.\<close>

fun reader_bytes :: "reader \<Rightarrow> bytes" where
  "reader_bytes EOF = []"
| "reader_bytes (ReadErr err) = []"
| "reader_bytes (Data chunk src) = chunk @ reader_bytes src"

fun reader_err :: "reader \<Rightarrow> string option" where
  "reader_err EOF = None"
| "reader_err (ReadErr err) = Some err"
| "reader_err (Data chunk src) = reader_err src"

subsection \<open>A concrete library and server, for running the functions\<close>

definition quoted :: "string \<Rightarrow> string" where
  "quoted s = [CHR 0x22] @ s @ [CHR 0x22]"

definition not_found_body :: bytes where
  "not_found_body = ''{'' @ quoted ''error'' @ '':'' @ quoted ''not found'' @ ''}''"

text \<open>
  A small instance of the library: every request body encodes to \<open>{}\<close>, the destination is a
  byte string that stores the decoded text, \<open>!\<close> is the one undecodable input, the error
  shape is decoded from the body \<open>{"error":"not found"}\<close> and from \<open>{}\<close> only, a query is
  encoded as its keys and values, unescaped.
\<close>

definition demo_lib :: "('b, bytes) golib" where
  "demo_lib =
     \<lparr>json_Marshal = (\<lambda>b. Inr ''{}''),
      json_Unmarshal =
        (\<lambda>data v. if data = ''!'' then (Some ''invalid character'', v) else (None, data)),
      json_Unmarshal_errResp =
        (\<lambda>data. if data = not_found_body
                 then Inr \<lparr>errResp_Error = ''not found'', errResp_Message = []\<rparr>
                 else if data = ''{}''
                 then Inr \<lparr>errResp_Error = [], errResp_Message = []\<rparr>
                 else Inl ''invalid character''),
      http_StatusText =
        (\<lambda>code. if code = 404 then ''Not Found''
                 else if code = 500 then ''Internal Server Error'' else []),
      http_NewRequest_err = (\<lambda>method url. None),
      url_Values_Encode = (\<lambda>q. concat (map (\<lambda>(k, vs). k @ ''='' @ concat vs) q)),
      multipart_boundary = ''0123456789abcdef'',
      zero_value = []\<rparr>"

text \<open>A client as \<open>NewClient("tok")\<close> makes it, in front of a server that answers every
  request with the given status code and body.\<close>

definition demo_client :: "int \<Rightarrow> bytes \<Rightarrow> Client" where
  "demo_client status body =
     \<lparr>BaseURL = ''https://f-image.com'',
      HTTPClient = (\<lambda>req. Inr \<lparr>resp_StatusCode = status, resp_Body = Inr body\<rparr>),
      apiToken = ''tok'',
      userAgent = ''f-image-go/1.0.0''\<rparr>"

section \<open>Error classification\<close>

lemma classified_parseAPIError: "classified (Some (parseAPIError lib status body)) status"
  by (simp add: classified_def parseAPIError_def Let_def IsUnauthorized_def IsForbidden_def
      IsNotFound_def IsBadRequest_def IsQuotaExceeded_def split: sum.splits)

lemma request_non_2xx:
  assumes "request lib c method path body result sent = ((err, result'), sent @ [req])"
    and "HTTPClient c req = Inr resp" and "resp_Body resp = Inr respBody"
    and "resp_StatusCode resp < 200 \<or> 300 \<le> resp_StatusCode resp"
  shows "err = Some (parseAPIError lib (resp_StatusCode resp) respBody)"
  using assms
  by (auto simp: request_def Let_def split: option.splits sum.splits prod.splits if_splits)

lemma upload_non_2xx:
  assumes "uploadMultipart lib c path reader filename formFields sent = (outcome, sent @ [req])"
    and "HTTPClient c req = Inr resp" and "resp_Body resp = Inr respBody"
    and "resp_StatusCode resp < 200 \<or> 300 \<le> resp_StatusCode resp"
  shows "outcome = Inl (parseAPIError lib (resp_StatusCode resp) respBody)"
  using assms
  by (auto simp: uploadMultipart_def Let_def split: option.splits sum.splits prod.splits if_splits)

text \<open>
  C4. Whenever one of the two transports has sent a request \<open>req\<close> and the server answered
  it with a status code outside \<open>[200,300)\<close> and a body that could be read, the error that
  the transport returns is an \<open>*APIError\<close> whose \<open>StatusCode\<close> is the status code received,
  whatever the body, and \<open>IsUnauthorized\<close>, \<open>IsForbidden\<close>, \<open>IsNotFound\<close>, \<open>IsBadRequest\<close> and
  \<open>IsQuotaExceeded\<close> hold of it exactly for 401, 403, 404, 400, and 402 or 413.
\<close>

theorem non_2xx_classified:
  assumes "HTTPClient c req = Inr resp" and "resp_Body resp = Inr respBody"
    and "resp_StatusCode resp < 200 \<or> 300 \<le> resp_StatusCode resp"
  shows "(request lib c method path body result sent = ((err, result'), sent @ [req]) \<longrightarrow>
            classified err (resp_StatusCode resp)) \<and>
         (uploadMultipart lib' c path' reader filename formFields sent = (outcome, sent @ [req]) \<longrightarrow>
            classified (err_of outcome) (resp_StatusCode resp))"
proof (intro conjI impI)
  assume "request lib c method path body result sent = ((err, result'), sent @ [req])"
  from request_non_2xx [OF this assms]
  show "classified err (resp_StatusCode resp)"
    by (simp add: classified_parseAPIError)
next
  assume "uploadMultipart lib' c path' reader filename formFields sent = (outcome, sent @ [req])"
  from upload_non_2xx [OF this assms]
  show "classified (err_of outcome) (resp_StatusCode resp)"
    by (simp add: classified_parseAPIError err_of_def)
qed

theorem non_2xx_classified_witness:
  "classified
     (fst (fst (request (demo_lib :: (unit, bytes) golib) (demo_client 404 not_found_body)
        ''GET'' ''/api/tags/7/files'' None (Some []) []))) 404 \<and>
   IsNotFound
     (fst (fst (request (demo_lib :: (unit, bytes) golib) (demo_client 404 not_found_body)
        ''GET'' ''/api/tags/7/files'' None (Some []) []))) \<and>
   classified
     (err_of (fst (uploadMultipart (demo_lib :: (unit, bytes) golib)
        (demo_client 404 not_found_body) ''/api/files/upload'' EOF ''a.jpg'' [] []))) 404"
proof -
  let ?c = "demo_client 404 not_found_body"
  let ?resp = "\<lparr>resp_StatusCode = 404, resp_Body = Inr not_found_body\<rparr>"
  let ?X = "request (demo_lib :: (unit, bytes) golib) ?c ''GET'' ''/api/tags/7/files'' None
              (Some []) []"
  let ?Y = "uploadMultipart (demo_lib :: (unit, bytes) golib) ?c ''/api/files/upload'' EOF
              ''a.jpg'' [] []"
  have do: "HTTPClient ?c r = Inr ?resp" for r
    by (simp add: demo_client_def)
  have body: "resp_Body ?resp = Inr not_found_body"
    and status: "resp_StatusCode ?resp < 200 \<or> 300 \<le> resp_StatusCode ?resp"
    by simp_all
  have X: "?X = ((fst (fst ?X), snd (fst ?X)), [] @ [last (snd ?X)])"
    by (simp add: request_def demo_lib_def demo_client_def Let_def)
  have Y: "?Y = (fst ?Y, [] @ [last (snd ?Y)])"
    by (simp add: uploadMultipart_def demo_lib_def demo_client_def Let_def)
  have 1: "classified (fst (fst ?X)) 404"
    using non_2xx_classified [where req = "last (snd ?X)" and sent = "[]"
        and lib = "demo_lib :: (unit, bytes) golib" and err = "fst (fst ?X)"
        and result' = "snd (fst ?X)", OF do body status, THEN conjunct1, THEN mp, OF X]
    by simp
  have 2: "classified (err_of (fst ?Y)) 404"
    using non_2xx_classified [where req = "last (snd ?Y)" and sent = "[]"
        and lib' = "demo_lib :: (unit, bytes) golib" and outcome = "fst ?Y",
        OF do body status, THEN conjunct2, THEN mp, OF Y]
    by simp
  from 1 have 3: "IsNotFound (fst (fst ?X))"
    by (simp add: classified_def)
  from 1 2 3 show ?thesis by simp
qed

text \<open>
  C5. The message of the classified error: when the body decodes into the shape with the
  string fields \<open>error\<close> and \<open>message\<close>, it is the \<open>error\<close> field if that is not empty,
  else the \<open>message\<close> field if that is not empty, else the standard text of the status
  code; when the body does not decode, it is the body itself. The status code is the one
  given. The classifier is a function of the status code and the body alone: it neither
  takes nor returns the list of requests sent.
\<close>

theorem parseAPIError_message:
  "parseAPIError lib statusCode body =
     APIErr \<lparr>StatusCode = statusCode,
             Message =
               (case json_Unmarshal_errResp lib body of
                  Inl err \<Rightarrow> body
                | Inr parsed \<Rightarrow>
                    if errResp_Error parsed \<noteq> [] then errResp_Error parsed
                    else if errResp_Message parsed \<noteq> [] then errResp_Message parsed
                    else http_StatusText lib statusCode)\<rparr>"
  by (simp add: parseAPIError_def Let_def split: sum.splits)

theorem parseAPIError_message_witness:
  "parseAPIError (demo_lib :: (unit, bytes) golib) 404 not_found_body =
     APIErr \<lparr>StatusCode = 404, Message = ''not found''\<rparr> \<and>
   parseAPIError (demo_lib :: (unit, bytes) golib) 500 ''{}'' =
     APIErr \<lparr>StatusCode = 500, Message = ''Internal Server Error''\<rparr> \<and>
   parseAPIError (demo_lib :: (unit, bytes) golib) 502 ''<html>'' =
     APIErr \<lparr>StatusCode = 502, Message = ''<html>''\<rparr>"
  using parseAPIError_message [of "demo_lib :: (unit, bytes) golib" 404 not_found_body]
    parseAPIError_message [of "demo_lib :: (unit, bytes) golib" 500 "''{}''"]
    parseAPIError_message [of "demo_lib :: (unit, bytes) golib" 502 "''<html>''"]
  by (simp add: demo_lib_def not_found_body_def quoted_def)

section \<open>Decoding a successful response\<close>

text \<open>
  C7. When \<open>request\<close> was called with a destination, has sent \<open>req\<close>, and the server answered
  with a status code in \<open>[200,300)\<close>: an empty body gives no error and leaves the destination
  as it was (for the callers, at its zero value); a body that is not empty is decoded into
  the destination, and when decoding fails the error is returned, wrapped by
  \<open>failed to decode response\<close>: an error in which \<open>errors.As\<close> finds no \<open>*APIError\<close>.
\<close>

theorem request_2xx_decoding:
  assumes "request lib c method path body (Some v) sent = ((err, result'), sent @ [req])"
    and "HTTPClient c req = Inr resp" and "resp_Body resp = Inr respBody"
    and "200 \<le> resp_StatusCode resp" and "resp_StatusCode resp < 300"
  shows "(respBody = [] \<longrightarrow> err = None \<and> result' = Some v) \<and>
         (respBody \<noteq> [] \<longrightarrow>
            (case json_Unmarshal lib respBody v of
               (None, v') \<Rightarrow> err = None \<and> result' = Some v'
             | (Some e, v') \<Rightarrow>
                 err = Some (Errorf_w ''failed to decode response'' (Lib e)) \<and>
                 errors_As_APIError (Errorf_w ''failed to decode response'' (Lib e)) = None))"
  using assms
  by (auto simp: request_def Let_def split: option.splits sum.splits prod.splits if_splits)

theorem request_2xx_decoding_witness:
  "request (demo_lib :: (unit, bytes) golib) (demo_client 204 []) ''DELETE'' ''/api/files/5''
     None (Some ''zero'') [] =
   ((None, Some ''zero''),
    [last (snd (request (demo_lib :: (unit, bytes) golib) (demo_client 204 []) ''DELETE''
       ''/api/files/5'' None (Some ''zero'') []))]) \<and>
   fst (request (demo_lib :: (unit, bytes) golib) (demo_client 200 ''!'') ''GET''
     ''/api/albums'' None (Some ''zero'') []) =
   (Some (Errorf_w ''failed to decode response'' (Lib ''invalid character'')), Some ''zero'')"
proof -
  let ?c = "demo_client 204 []"
  let ?resp = "\<lparr>resp_StatusCode = 204, resp_Body = Inr []\<rparr>"
  let ?X = "request (demo_lib :: (unit, bytes) golib) ?c ''DELETE'' ''/api/files/5'' None
              (Some ''zero'') []"
  let ?d = "demo_client 200 ''!''"
  let ?resp' = "\<lparr>resp_StatusCode = 200, resp_Body = Inr ''!''\<rparr>"
  let ?Y = "request (demo_lib :: (unit, bytes) golib) ?d ''GET'' ''/api/albums'' None
              (Some ''zero'') []"
  have X: "?X = ((fst (fst ?X), snd (fst ?X)), [] @ [last (snd ?X)])"
    by (simp add: request_def demo_lib_def demo_client_def Let_def)
  have Y: "?Y = ((fst (fst ?Y), snd (fst ?Y)), [] @ [last (snd ?Y)])"
    by (simp add: request_def demo_lib_def demo_client_def Let_def)
  have 1: "fst (fst ?X) = None \<and> snd (fst ?X) = Some ''zero''"
    using request_2xx_decoding [OF X, of ?resp "[]"]
    by (simp add: demo_client_def)
  have 2: "fst (fst ?Y) = Some (Errorf_w ''failed to decode response'' (Lib ''invalid character''))"
    using request_2xx_decoding [OF Y, of ?resp' "''!''"]
    by (simp add: demo_client_def demo_lib_def)
  have 3: "snd (fst ?Y) = Some ''zero''"
    by (simp add: request_def demo_lib_def demo_client_def Let_def)
  from 1 X have "?X = ((None, Some ''zero''), [last (snd ?X)])"
    by simp
  moreover from 2 3 have "fst ?Y =
      (Some (Errorf_w ''failed to decode response'' (Lib ''invalid character'')), Some ''zero'')"
    by (simp add: prod_eq_iff)
  ultimately show ?thesis by simp
qed

section \<open>Requests as they are sent\<close>

lemma snd_request:
  "snd (request lib c method path body result sent) =
     (case body of
        None \<Rightarrow>
          (case http_NewRequest_err lib method (BaseURL c @ path) of
             Some err \<Rightarrow> sent
           | None \<Rightarrow>
               sent @ [\<lparr>req_Method = method, req_URL = BaseURL c @ path,
                        req_Header = request_Header c False, req_Body = None\<rparr>])
      | Some b \<Rightarrow>
          (case json_Marshal lib b of
             Inl err \<Rightarrow> sent
           | Inr jsonBody \<Rightarrow>
               (case http_NewRequest_err lib method (BaseURL c @ path) of
                  Some err \<Rightarrow> sent
                | None \<Rightarrow>
                    sent @ [\<lparr>req_Method = method, req_URL = BaseURL c @ path,
                             req_Header = request_Header c True,
                             req_Body = Some (JSONBytes jsonBody)\<rparr>])))"
  by (simp add: request_def Let_def split: option.splits sum.splits prod.splits)

lemma io_Copy_eq: "io_Copy dst src = (dst @ reader_bytes src, reader_err src)"
  by (induction src arbitrary: dst) simp_all

lemma foldl_WriteField:
  "foldl (\<lambda>w (key, v). WriteField key v w) w formFields =
     w @ map (\<lambda>(key, v). FormField key v) formFields"
  by (induction formFields arbitrary: w) (auto simp: WriteField_def)

lemma snd_uploadMultipart:
  "snd (uploadMultipart lib c path reader filename formFields sent) =
     (if reader_err reader = None \<and> http_NewRequest_err lib ''POST'' (BaseURL c @ path) = None
      then sent @ [\<lparr>req_Method = ''POST'', req_URL = BaseURL c @ path,
                     req_Header = upload_Header c (multipart_boundary lib),
                     req_Body =
                       Some (MultipartForm (multipart_boundary lib)
                         (FormFile ''file'' filename (reader_bytes reader) #
                          map (\<lambda>(key, v). FormField key v) formFields))\<rparr>]
      else sent)"
  by (simp add: uploadMultipart_def io_Copy_eq foldl_WriteField Let_def
      split: option.splits sum.splits prod.splits)

lemma request_sent_req:
  assumes "snd (request lib c method path body result sent) = sent @ new" and "req \<in> set new"
  shows "req_Header req = request_Header c (body \<noteq> None) \<and>
         has_JSON_body req = (body \<noteq> None)"
  using assms
  by (auto simp: snd_request has_JSON_body_def split: option.splits sum.splits)

lemma upload_sent_req:
  assumes "snd (uploadMultipart lib c path reader filename formFields sent) = sent @ new"
    and "req \<in> set new"
  shows "req_Header req = upload_Header c (multipart_boundary lib) \<and> \<not> has_JSON_body req"
  using assms
  by (auto simp: snd_uploadMultipart has_JSON_body_def split: if_splits)

lemma request_Header_lookup:
  "map_of (request_Header c hasBody) ''Authorization'' = Some (''Bearer '' @ apiToken c)"
  "map_of (request_Header c hasBody) ''User-Agent'' = Some (userAgent c)"
  "map_of (request_Header c hasBody) ''Accept'' = Some ''application/json''"
  "map_of (request_Header c hasBody) ''Content-Type'' =
     (if hasBody then Some ''application/json'' else None)"
  by (simp_all add: request_Header_def Header_Set_def Let_def)

lemma upload_Header_lookup:
  "map_of (upload_Header c boundary) ''Authorization'' = Some (''Bearer '' @ apiToken c)"
  "map_of (upload_Header c boundary) ''User-Agent'' = Some (userAgent c)"
  "map_of (upload_Header c boundary) ''Accept'' = Some ''application/json''"
  "map_of (upload_Header c boundary) ''Content-Type'' = Some (FormDataContentType boundary)"
  "length (upload_Header c boundary) = 4"
  by (simp_all add: upload_Header_def Header_Set_def Let_def)

lemma upload_Header_keys:
  "set (map fst (upload_Header c boundary)) =
     {''Authorization'', ''User-Agent'', ''Content-Type'', ''Accept''}"
  by (auto simp: upload_Header_def Header_Set_def Let_def)

lemma FormDataContentType_not_json: "FormDataContentType b \<noteq> ''application/json''"
  by (simp add: FormDataContentType_def)

text \<open>
  C6. Every request that \<open>request\<close> sends carries \<open>Authorization: Bearer <token>\<close>, the
  \<open>User-Agent\<close> of the client and \<open>Accept: application/json\<close>; it carries
  \<open>Content-Type: application/json\<close> when a body was given, which is exactly when the request
  has a JSON body, and no \<open>Content-Type\<close> at all otherwise. Every request that
  \<open>uploadMultipart\<close> sends carries exactly four headers: the same three and a \<open>Content-Type\<close>
  that is the multipart content type with the writer's boundary, not the JSON one.
\<close>

theorem request_headers:
  "(snd (request lib c method path body result sent) = sent @ new \<and> req \<in> set new \<longrightarrow>
      map_of (req_Header req) ''Authorization'' = Some (''Bearer '' @ apiToken c) \<and>
      map_of (req_Header req) ''User-Agent'' = Some (userAgent c) \<and>
      map_of (req_Header req) ''Accept'' = Some ''application/json'' \<and>
      map_of (req_Header req) ''Content-Type'' =
        (if body = None then None else Some ''application/json'') \<and>
      has_JSON_body req = (body \<noteq> None)) \<and>
   (snd (uploadMultipart lib' c path' reader filename formFields sent) = sent @ new' \<and>
    req' \<in> set new' \<longrightarrow>
      map_of (req_Header req') ''Authorization'' = Some (''Bearer '' @ apiToken c) \<and>
      map_of (req_Header req') ''User-Agent'' = Some (userAgent c) \<and>
      map_of (req_Header req') ''Accept'' = Some ''application/json'' \<and>
      map_of (req_Header req') ''Content-Type'' =
        Some (FormDataContentType (multipart_boundary lib')) \<and>
      FormDataContentType (multipart_boundary lib') \<noteq> ''application/json'' \<and>
      \<not> has_JSON_body req' \<and>
      length (req_Header req') = 4 \<and>
      set (map fst (req_Header req')) =
        {''Authorization'', ''User-Agent'', ''Content-Type'', ''Accept''})"
proof (intro conjI impI)
  assume "snd (request lib c method path body result sent) = sent @ new \<and> req \<in> set new"
  then have a: "snd (request lib c method path body result sent) = sent @ new"
    and b: "req \<in> set new"
    by simp_all
  from request_sent_req [OF a b]
  have r: "req_Header req = request_Header c (body \<noteq> None)"
      "has_JSON_body req = (body \<noteq> None)"
    by simp_all
  show "map_of (req_Header req) ''Authorization'' = Some (''Bearer '' @ apiToken c)"
    by (simp only: r request_Header_lookup)
  show "map_of (req_Header req) ''User-Agent'' = Some (userAgent c)"
    by (simp only: r request_Header_lookup)
  show "map_of (req_Header req) ''Accept'' = Some ''application/json''"
    by (simp only: r request_Header_lookup)
  show "map_of (req_Header req) ''Content-Type'' =
        (if body = None then None else Some ''application/json'')"
    by (cases body) (simp_all only: r request_Header_lookup, simp_all)
  show "has_JSON_body req = (body \<noteq> None)"
    by (rule r)
next
  assume "snd (uploadMultipart lib' c path' reader filename formFields sent) = sent @ new' \<and>
    req' \<in> set new'"
  then have a: "snd (uploadMultipart lib' c path' reader filename formFields sent) = sent @ new'"
    and b: "req' \<in> set new'"
    by simp_all
  from upload_sent_req [OF a b]
  have r: "req_Header req' = upload_Header c (multipart_boundary lib')"
      "\<not> has_JSON_body req'"
    by simp_all
  show "map_of (req_Header req') ''Authorization'' = Some (''Bearer '' @ apiToken c)"
    by (simp only: r upload_Header_lookup)
  show "map_of (req_Header req') ''User-Agent'' = Some (userAgent c)"
    by (simp only: r upload_Header_lookup)
  show "map_of (req_Header req') ''Accept'' = Some ''application/json''"
    by (simp only: r upload_Header_lookup)
  show "map_of (req_Header req') ''Content-Type'' =
        Some (FormDataContentType (multipart_boundary lib'))"
    by (simp only: r upload_Header_lookup)
  show "FormDataContentType (multipart_boundary lib') \<noteq> ''application/json''"
    by (rule FormDataContentType_not_json)
  show "\<not> has_JSON_body req'"
    by (rule r)
  show "length (req_Header req') = 4"
    by (simp only: r upload_Header_lookup)
  show "set (map fst (req_Header req')) =
        {''Authorization'', ''User-Agent'', ''Content-Type'', ''Accept''}"
    by (simp only: r upload_Header_keys)
qed

theorem request_headers_witness:
  "map_of (req_Header (last (snd (request (demo_lib :: (unit, bytes) golib)
      (demo_client 200 ''{}'') ''POST'' ''/api/albums'' (Some ()) (Some []) []))))
      ''Content-Type'' = Some ''application/json'' \<and>
   map_of (req_Header (last (snd (request (demo_lib :: (unit, bytes) golib)
      (demo_client 200 ''{}'') ''GET'' ''/api/albums'' None (Some []) []))))
      ''Content-Type'' = None \<and>
   map_of (req_Header (last (snd (request (demo_lib :: (unit, bytes) golib)
      (demo_client 200 ''{}'') ''GET'' ''/api/albums'' None (Some []) []))))
      ''Authorization'' = Some ''Bearer tok'' \<and>
   map_of (req_Header (last (snd (uploadMultipart (demo_lib :: (unit, bytes) golib)
      (demo_client 200 ''{}'') ''/api/files/upload'' (Data ''abc'' EOF) ''a.jpg'' [] []))))
      ''Content-Type'' = Some ''multipart/form-data; boundary=0123456789abcdef''"
proof -
  let ?c = "demo_client 200 ''{}''"
  let ?X = "request (demo_lib :: (unit, bytes) golib) ?c ''POST'' ''/api/albums'' (Some ())
              (Some []) []"
  let ?Y = "request (demo_lib :: (unit, bytes) golib) ?c ''GET'' ''/api/albums'' None
              (Some []) []"
  let ?Z = "uploadMultipart (demo_lib :: (unit, bytes) golib) ?c ''/api/files/upload''
              (Data ''abc'' EOF) ''a.jpg'' [] []"
  have X: "snd ?X = [] @ [last (snd ?X)] \<and> last (snd ?X) \<in> set [last (snd ?X)]"
    by (simp add: snd_request demo_lib_def)
  have Y: "snd ?Y = [] @ [last (snd ?Y)] \<and> last (snd ?Y) \<in> set [last (snd ?Y)]"
    by (simp add: snd_request demo_lib_def)
  have Z: "snd ?Z = [] @ [last (snd ?Z)] \<and> last (snd ?Z) \<in> set [last (snd ?Z)]"
    by (simp add: snd_uploadMultipart demo_lib_def)
  have 1: "map_of (req_Header (last (snd ?X))) ''Content-Type'' = Some ''application/json''"
    using request_headers [THEN conjunct1, THEN mp, OF X] by simp
  have 2: "map_of (req_Header (last (snd ?Y))) ''Content-Type'' = None \<and>
           map_of (req_Header (last (snd ?Y))) ''Authorization'' = Some ''Bearer tok''"
    using request_headers [THEN conjunct1, THEN mp, OF Y] by (simp add: demo_client_def)
  have 3: "map_of (req_Header (last (snd ?Z))) ''Content-Type'' =
             Some ''multipart/form-data; boundary=0123456789abcdef''"
    using request_headers [THEN conjunct2, THEN mp, OF Z]
    by (simp add: demo_lib_def FormDataContentType_def tspecials_def)
  from 1 2 3 show ?thesis by simp
qed

section \<open>The multipart body\<close>

lemma sends_one_snoc:
  "sends_one sent (sent @ [req]) method url body =
     (req_Method req = method \<and> req_URL req = url \<and> req_Body req = body)"
  by (simp add: sends_one_def)

text \<open>
  C8. When the input stream ends without an error and the request can be built,
  \<open>uploadMultipart\<close> sends one \<open>POST\<close> whose body is a multipart form that holds, first, one
  file part with the field name \<open>file\<close>, the file name given and all the bytes of the
  stream in the order in which they were read (each chunk is read once), and then one text
  part for each entry of the field map, in the order in which \<open>range\<close> visits the entries,
  with its value as it is, empty or not. The form has exactly one file part and as many text
  parts as the map has entries. When the stream ends with an error nothing is sent.
\<close>

theorem uploadMultipart_body:
  "(reader_err reader = None \<and> http_NewRequest_err lib ''POST'' (BaseURL c @ path) = None \<longrightarrow>
      sends_one sent (snd (uploadMultipart lib c path reader filename formFields sent))
        ''POST'' (BaseURL c @ path)
        (Some (MultipartForm (multipart_boundary lib)
           (FormFile ''file'' filename (reader_bytes reader) #
            map (\<lambda>(key, v). FormField key v) formFields)))) \<and>
   length (filter is_FormFile
     (FormFile ''file'' filename (reader_bytes reader) #
      map (\<lambda>(key, v). FormField key v) formFields)) = 1 \<and>
   length (filter (\<lambda>p. \<not> is_FormFile p)
     (FormFile ''file'' filename (reader_bytes reader) #
      map (\<lambda>(key, v). FormField key v) formFields)) = length formFields \<and>
   (reader_err reader \<noteq> None \<longrightarrow>
      snd (uploadMultipart lib c path reader filename formFields sent) = sent)"
proof -
  have "filter is_FormFile (map (\<lambda>(key, v). FormField key v) formFields) = []"
    by (induction formFields) auto
  moreover have "filter (\<lambda>p. \<not> is_FormFile p) (map (\<lambda>(key, v). FormField key v) formFields) =
      map (\<lambda>(key, v). FormField key v) formFields"
    by (induction formFields) auto
  ultimately show ?thesis
    by (simp add: snd_uploadMultipart sends_one_snoc)
qed

theorem uploadMultipart_body_witness:
  "snd (uploadMultipart (demo_lib :: (unit, bytes) golib) (demo_client 200 ''{}'')
     ''/api/files/upload'' (Data ''ab'' (Data ''c'' EOF)) ''a.jpg''
     [(''description'', ''sunset''), (''note'', [])] []) =
   [\<lparr>req_Method = ''POST'', req_URL = ''https://f-image.com/api/files/upload'',
     req_Header = upload_Header (demo_client 200 ''{}'') ''0123456789abcdef'',
     req_Body = Some (MultipartForm ''0123456789abcdef''
       [FormFile ''file'' ''a.jpg'' ''abc'', FormField ''description'' ''sunset'',
        FormField ''note'' []])\<rparr>]"
proof -
  let ?c = "demo_client 200 ''{}''"
  let ?U = "snd (uploadMultipart (demo_lib :: (unit, bytes) golib) ?c
     ''/api/files/upload'' (Data ''ab'' (Data ''c'' EOF)) ''a.jpg''
     [(''description'', ''sunset''), (''note'', [])] [])"
  have h: "reader_err (Data ''ab'' (Data ''c'' EOF)) = None \<and>
        http_NewRequest_err (demo_lib :: (unit, bytes) golib) ''POST''
          (BaseURL ?c @ ''/api/files/upload'') = None"
    by (simp add: demo_lib_def)
  from uploadMultipart_body [where filename = "''a.jpg''" and sent = "[]"
      and formFields = "[(''description'', ''sunset''), (''note'', [])]",
      THEN conjunct1, THEN mp, OF h]
  have s: "sends_one [] ?U ''POST'' (BaseURL ?c @ ''/api/files/upload'')
        (Some (MultipartForm (multipart_boundary (demo_lib :: (unit, bytes) golib))
           (FormFile ''file'' ''a.jpg'' (reader_bytes (Data ''ab'' (Data ''c'' EOF))) #
            map (\<lambda>(key, v). FormField key v) [(''description'', ''sunset''), (''note'', [])])))" .
  have hd: "map req_Header ?U = [upload_Header ?c ''0123456789abcdef'']"
    by (simp add: snd_uploadMultipart demo_lib_def)
  from s hd show ?thesis
    by (auto simp: sends_one_def demo_lib_def demo_client_def split: list.splits)
qed

section \<open>The Files service: \<open>Upload\<close>\<close>

lemma snd_Files_Upload:
  "snd (Files_Upload lib c reader opts sent) =
     snd (uploadMultipart lib c ''/api/files/upload'' reader
       (case opts of
          None \<Rightarrow> ''image.jpg''
        | Some given \<Rightarrow> if upload_Filename given = [] then ''image.jpg'' else upload_Filename given)
       (case opts of
          None \<Rightarrow> []
        | Some given \<Rightarrow>
            if upload_Description given = [] then []
            else [(''description'', upload_Description given)])
       sent)"
  by (simp add: Files_Upload_def Let_def split: option.splits sum.splits prod.splits)

text \<open>
  C10. When the input stream ends without an error and the request can be built,
  \<open>Files.Upload\<close> with \<open>nil\<close> options sends a multipart form that holds the file part only,
  under the file name \<open>image.jpg\<close>; with options whose \<open>Filename\<close> is empty the file part
  has the file name \<open>image.jpg\<close> too, followed by the \<open>description\<close> field when the
  description is not empty.
\<close>

theorem Files_Upload_default_filename:
  assumes "reader_err reader = None"
    and "http_NewRequest_err lib ''POST'' (BaseURL c @ ''/api/files/upload'') = None"
  shows "sends_one sent (snd (Files_Upload lib c reader None sent))
           ''POST'' (BaseURL c @ ''/api/files/upload'')
           (Some (MultipartForm (multipart_boundary lib)
              [FormFile ''file'' ''image.jpg'' (reader_bytes reader)])) \<and>
         (upload_Filename given = [] \<longrightarrow>
            sends_one sent (snd (Files_Upload lib c reader (Some given) sent))
              ''POST'' (BaseURL c @ ''/api/files/upload'')
              (Some (MultipartForm (multipart_boundary lib)
                 (FormFile ''file'' ''image.jpg'' (reader_bytes reader) #
                  (if upload_Description given = [] then []
                   else [FormField ''description'' (upload_Description given)])))))"
  using assms
  by (simp add: snd_Files_Upload snd_uploadMultipart sends_one_snoc)

theorem Files_Upload_default_filename_witness:
  "map req_Body (snd (Files_Upload (demo_lib :: (unit, bytes) golib) (demo_client 200 ''{}'')
      (Data ''abc'' EOF) None [])) =
     [Some (MultipartForm ''0123456789abcdef'' [FormFile ''file'' ''image.jpg'' ''abc''])] \<and>
   map req_Body (snd (Files_Upload (demo_lib :: (unit, bytes) golib) (demo_client 200 ''{}'')
      (Data ''abc'' EOF)
      (Some \<lparr>upload_Filename = [], upload_Description = ''sunset'', upload_AlbumID = None\<rparr>)
      [])) =
     [Some (MultipartForm ''0123456789abcdef''
        [FormFile ''file'' ''image.jpg'' ''abc'', FormField ''description'' ''sunset''])]"
proof -
  let ?c = "demo_client 200 ''{}''"
  let ?g = "\<lparr>upload_Filename = [], upload_Description = ''sunset'', upload_AlbumID = None\<rparr>"
  have h1: "reader_err (Data ''abc'' EOF) = None"
    by simp
  have h2: "http_NewRequest_err (demo_lib :: (unit, bytes) golib) ''POST''
          (BaseURL ?c @ ''/api/files/upload'') = None"
    by (simp add: demo_lib_def)
  from Files_Upload_default_filename [OF h1 h2, of "[]" ?g]
  show ?thesis
    by (auto simp: sends_one_def demo_lib_def split: list.splits)
qed


section \<open>The query variant of \<open>request\<close>\<close>

text \<open>
  C9. \<open>requestWithQuery\<close> with a query map that is not empty is \<open>request\<close> with the method
  \<open>GET\<close>, no body, and the path followed by \<open>?\<close> and the encoded query; with an empty
  query map it is \<open>request\<close> with the method \<open>GET\<close>, no body, and the path as it is. The
  two sides are equal as functions of the requests sent so far: same error, same decoded
  value, same requests sent.
\<close>

theorem requestWithQuery_is_GET:
  "(query \<noteq> [] \<longrightarrow>
      requestWithQuery lib c path query result sent =
        request lib c ''GET'' (path @ ''?'' @ url_Values_Encode lib query) None result sent) \<and>
   (query = [] \<longrightarrow>
      requestWithQuery lib c path query result sent =
        request lib c ''GET'' path None result sent)"
  by (simp add: requestWithQuery_def)

theorem requestWithQuery_is_GET_witness:
  "requestWithQuery (demo_lib :: (unit, bytes) golib) (demo_client 200 ''{}'') ''/api/files''
     [(''page'', [''2''])] (Some []) [] =
   request (demo_lib :: (unit, bytes) golib) (demo_client 200 ''{}'') ''GET''
     ''/api/files?page=2'' None (Some []) [] \<and>
   requestWithQuery (demo_lib :: (unit, bytes) golib) (demo_client 200 ''{}'') ''/api/files''
     [] (Some []) [] =
   request (demo_lib :: (unit, bytes) golib) (demo_client 200 ''{}'') ''GET''
     ''/api/files'' None (Some []) []"
  using requestWithQuery_is_GET [of "[(''page'', [''2''])]" "demo_lib :: (unit, bytes) golib"
      "demo_client 200 ''{}''" "''/api/files''" "Some []" "[]"]
    requestWithQuery_is_GET [of "[]" "demo_lib :: (unit, bytes) golib"
      "demo_client 200 ''{}''" "''/api/files''" "Some []" "[]"]
  by (simp add: demo_lib_def)

section \<open>What the services check before they call the transport\<close>

text \<open>A destination that is not \<open>nil\<close> stays so: the last case of \<open>returning\<close> is not
  reached by the services, which all pass \<open>&resp\<close>.\<close>

lemma request_destination_kept:
  "snd (fst (request lib c method path body (Some v) sent)) \<noteq> None"
  by (simp add: request_def Let_def split: option.splits sum.splits prod.splits)

lemma snd_returning: "snd (returning outcome dflt) = snd outcome"
  by (simp add: returning_def split: prod.splits option.splits)


text \<open>
  C1, as stated, fails when both targets are set: \<open>Share.Create\<close> with a file id and an
  album id returns no error in front of a server that answers 201, and has sent one request.
\<close>

theorem Share_Create_both_counterexample:
  "fst (Share_Create demo_lib (demo_client 201 ''{}'')
     (Some \<lparr>share_FileID = Some 1, share_AlbumID = Some 2, share_Password = [],
            share_ExpiresIn = 0, share_MaxViews = 0\<rparr>) []) = Inr ''{}'' \<and>
   length (snd (Share_Create demo_lib (demo_client 201 ''{}'')
     (Some \<lparr>share_FileID = Some 1, share_AlbumID = Some 2, share_Password = [],
            share_ExpiresIn = 0, share_MaxViews = 0\<rparr>) [])) = 1"
  by (simp add: Share_Create_def request_def returning_def demo_lib_def demo_client_def Let_def)

text \<open>
  C1, amended. \<open>Share.Create\<close> returns the local error \<open>either FileID or AlbumID is
  required\<close> and sends nothing when the options are \<open>nil\<close> or when neither the file id nor
  the album id is set. When at least one of them is set, both included, the local check
  passes: if the body encodes and the request can be built, one \<open>POST\<close> to \<open>/api/shares\<close> is
  sent, with the encoding of the request struct that carries both fields as given.
\<close>

theorem Share_Create_target_check:
  "Share_Create lib c None sent =
     (Inl (Errorf ''either FileID or AlbumID is required''), sent) \<and>
   (share_FileID opts = None \<and> share_AlbumID opts = None \<longrightarrow>
      Share_Create lib c (Some opts) sent =
        (Inl (Errorf ''either FileID or AlbumID is required''), sent)) \<and>
   ((share_FileID opts \<noteq> None \<or> share_AlbumID opts \<noteq> None) \<and>
    json_Marshal lib
      \<lparr>body_FileID = share_FileID opts, body_AlbumID = share_AlbumID opts,
       body_Password = share_Password opts, body_ExpiresIn = share_ExpiresIn opts,
       body_MaxViews = share_MaxViews opts\<rparr> = Inr jsonBody \<and>
    http_NewRequest_err lib ''POST'' (BaseURL c @ ''/api/shares'') = None \<longrightarrow>
      sends_one sent (snd (Share_Create lib c (Some opts) sent))
        ''POST'' (BaseURL c @ ''/api/shares'') (Some (JSONBytes jsonBody)))"
  by (auto simp: Share_Create_def snd_returning snd_request sends_one_snoc Let_def)

theorem Share_Create_target_check_witness:
  "Share_Create demo_lib (demo_client 201 ''{}'')
     (Some \<lparr>share_FileID = None, share_AlbumID = None, share_Password = ''pw'',
            share_ExpiresIn = 24, share_MaxViews = 0\<rparr>) [] =
     (Inl (Errorf ''either FileID or AlbumID is required''), []) \<and>
   sends_one [] (snd (Share_Create demo_lib (demo_client 201 ''{}'')
     (Some \<lparr>share_FileID = Some 1, share_AlbumID = Some 2, share_Password = [],
            share_ExpiresIn = 0, share_MaxViews = 0\<rparr>) []))
     ''POST'' ''https://f-image.com/api/shares'' (Some (JSONBytes ''{}''))"
  using Share_Create_target_check [of demo_lib "demo_client 201 ''{}''" "[]"
      "\<lparr>share_FileID = None, share_AlbumID = None, share_Password = ''pw'',
            share_ExpiresIn = 24, share_MaxViews = 0\<rparr>" "''{}''"]
    Share_Create_target_check [of demo_lib "demo_client 201 ''{}''" "[]"
      "\<lparr>share_FileID = Some 1, share_AlbumID = Some 2, share_Password = [],
            share_ExpiresIn = 0, share_MaxViews = 0\<rparr>" "''{}''"]
  by (simp add: demo_lib_def demo_client_def)




section \<open>The album of an upload\<close>

lemma Files_Upload_AlbumID_irrelevant:
  "Files_Upload lib c reader (Some (given\<lparr>upload_AlbumID := albumID\<rparr>)) sent =
   Files_Upload lib c reader (Some given) sent"
  by (simp add: Files_Upload_def)

text \<open>
  C2. The claim holds for the file name and the description, and fails for the album:
  \<open>Files.Upload\<close> never reads \<open>opts.AlbumID\<close>. An upload of three bytes with the file name
  \<open>a.jpg\<close>, the description \<open>sunset\<close> and the album 123 sends the request below, which
  names the album nowhere, and has the same outcome as the upload without an album.
\<close>

theorem Files_Upload_drops_AlbumID:
  "snd (Files_Upload (demo_lib :: (unit, bytes) golib) (demo_client 200 ''{}'')
     (Data ''abc'' EOF)
     (Some \<lparr>upload_Filename = ''a.jpg'', upload_Description = ''sunset'',
            upload_AlbumID = Some 123\<rparr>) []) =
   [\<lparr>req_Method = ''POST'', req_URL = ''https://f-image.com/api/files/upload'',
     req_Header =
       [(''Authorization'', ''Bearer tok''), (''User-Agent'', ''f-image-go/1.0.0''),
        (''Content-Type'', ''multipart/form-data; boundary=0123456789abcdef''),
        (''Accept'', ''application/json'')],
     req_Body = Some (MultipartForm ''0123456789abcdef''
       [FormFile ''file'' ''a.jpg'' ''abc'', FormField ''description'' ''sunset''])\<rparr>] \<and>
   Files_Upload (demo_lib :: (unit, bytes) golib) (demo_client 200 ''{}'')
     (Data ''abc'' EOF)
     (Some \<lparr>upload_Filename = ''a.jpg'', upload_Description = ''sunset'',
            upload_AlbumID = Some 123\<rparr>) [] =
   Files_Upload (demo_lib :: (unit, bytes) golib) (demo_client 200 ''{}'')
     (Data ''abc'' EOF)
     (Some \<lparr>upload_Filename = ''a.jpg'', upload_Description = ''sunset'',
            upload_AlbumID = None\<rparr>) []"
proof -
  have "snd (Files_Upload (demo_lib :: (unit, bytes) golib) (demo_client 200 ''{}'')
     (Data ''abc'' EOF)
     (Some \<lparr>upload_Filename = ''a.jpg'', upload_Description = ''sunset'',
            upload_AlbumID = Some 123\<rparr>) []) =
   [\<lparr>req_Method = ''POST'', req_URL = ''https://f-image.com/api/files/upload'',
     req_Header =
       [(''Authorization'', ''Bearer tok''), (''User-Agent'', ''f-image-go/1.0.0''),
        (''Content-Type'', ''multipart/form-data; boundary=0123456789abcdef''),
        (''Accept'', ''application/json'')],
     req_Body = Some (MultipartForm ''0123456789abcdef''
       [FormFile ''file'' ''a.jpg'' ''abc'', FormField ''description'' ''sunset''])\<rparr>]"
    by (simp add: snd_Files_Upload snd_uploadMultipart demo_lib_def demo_client_def
        upload_Header_def Header_Set_def FormDataContentType_def tspecials_def Let_def)
  moreover have "Files_Upload (demo_lib :: (unit, bytes) golib) (demo_client 200 ''{}'')
     (Data ''abc'' EOF)
     (Some \<lparr>upload_Filename = ''a.jpg'', upload_Description = ''sunset'',
            upload_AlbumID = Some 123\<rparr>) [] =
   Files_Upload (demo_lib :: (unit, bytes) golib) (demo_client 200 ''{}'')
     (Data ''abc'' EOF)
     (Some \<lparr>upload_Filename = ''a.jpg'', upload_Description = ''sunset'',
            upload_AlbumID = None\<rparr>) []"
    using Files_Upload_AlbumID_irrelevant [where lib = "demo_lib :: (unit, bytes) golib"
        and c = "demo_client 200 ''{}''" and reader = "Data ''abc'' EOF"
        and given = "\<lparr>upload_Filename = ''a.jpg'', upload_Description = ''sunset'',
            upload_AlbumID = None\<rparr>" and albumID = "Some 123" and sent = "[]"]
    by simp
  ultimately show ?thesis by simp
qed

end
